theory Spec2Isabelle
  imports Complex_Main "HOL-Library.Sublist"
begin

section \<open>Route53 failover controller (failover.py)\<close>

text \<open>
  A shallow embedding of \<^verbatim>\<open>failover.py\<close>.  Python values that reach the decision
  logic are modelled as they are: the Lambda event and the decoded alarm message are JSON
  values, the environment-sourced module constants are one configuration record, the two
  AWS clients and \<^verbatim>\<open>json.loads\<close> are functions of a \<open>world\<close> record, and every call
  to a client and every log line is appended to a trace of effects.  A Python exception
  is the left summand of a sum type.
\<close>

subsection \<open>Python values\<close>

text \<open>
  The result of \<^verbatim>\<open>json.loads\<close>: \<open>JNull\<close> is Python's \<^verbatim>\<open>None\<close>.  A \<^verbatim>\<open>dict\<close> is an
  association list read with \<open>map_of\<close>.  Strings are \<open>char\<close> lists.  A float is a real
  number (CloudWatch stores no NaN and no infinity).
\<close>

datatype json =
    JNull
  | JBool bool
  | JInt int
  | JFloat real
  | JStr string
  | JArr "json list"
  | JObj "(string \<times> json) list"

datatype exn = KeyError | IndexError | TypeError | AttributeError | JSONDecodeError | ClientError

text \<open>Truth value testing, as in \<^verbatim>\<open>if not msg\<close> and \<^verbatim>\<open>if alarm_name and ...\<close>.\<close>

fun truthy :: "json \<Rightarrow> bool" where
  "truthy JNull = False"
| "truthy (JBool b) = b"
| "truthy (JInt i) = (i \<noteq> 0)"
| "truthy (JFloat r) = (r \<noteq> 0)"
| "truthy (JStr s) = (s \<noteq> [])"
| "truthy (JArr xs) = (xs \<noteq> [])"
| "truthy (JObj kvs) = (kvs \<noteq> [])"

text \<open>\<^verbatim>\<open>x[k]\<close> for a string key \<open>k\<close>: a \<^verbatim>\<open>dict\<close> looks the key up, a list and a string
  want an integer index, the other values are not subscriptable.\<close>

fun getitem_str :: "json \<Rightarrow> string \<Rightarrow> exn + json" where
  "getitem_str (JObj kvs) k = (case map_of kvs k of None \<Rightarrow> Inl KeyError | Some v \<Rightarrow> Inr v)"
| "getitem_str _ k = Inl TypeError"

text \<open>\<^verbatim>\<open>x[0]\<close>: the keys of a decoded JSON object are strings, so \<open>0\<close> is never a key.\<close>

fun getitem_0 :: "json \<Rightarrow> exn + json" where
  "getitem_0 (JArr xs) = (case xs of [] \<Rightarrow> Inl IndexError | x # _ \<Rightarrow> Inr x)"
| "getitem_0 (JStr s) = (case s of [] \<Rightarrow> Inl IndexError | c # _ \<Rightarrow> Inr (JStr [c]))"
| "getitem_0 (JObj kvs) = Inl KeyError"
| "getitem_0 _ = Inl TypeError"

text \<open>\<^verbatim>\<open>x.get(k)\<close>: only a \<^verbatim>\<open>dict\<close> has the method; a missing key gives \<^verbatim>\<open>None\<close>.\<close>

fun py_get :: "json \<Rightarrow> string \<Rightarrow> exn + json" where
  "py_get (JObj kvs) k = (case map_of kvs k of None \<Rightarrow> Inr JNull | Some v \<Rightarrow> Inr v)"
| "py_get _ k = Inl AttributeError"

text \<open>\<^verbatim>\<open>needle in s\<close> on strings: \<open>needle\<close> occurs in \<open>s\<close> as a contiguous block.\<close>

fun str_contains :: "string \<Rightarrow> string \<Rightarrow> bool" where
  "str_contains [] needle = (needle = [])"
| "str_contains (c # s) needle = (prefix needle (c # s) \<or> str_contains s needle)"

text \<open>\<^verbatim>\<open>needle in x\<close> for a string \<open>needle\<close>: substring of a string, element of a
  list, key of a \<^verbatim>\<open>dict\<close>; the other values are not iterable.\<close>

fun py_in :: "string \<Rightarrow> json \<Rightarrow> exn + bool" where
  "py_in needle (JStr s) = Inr (str_contains s needle)"
| "py_in needle (JArr xs) = Inr (JStr needle \<in> set xs)"
| "py_in needle (JObj kvs) = Inr (needle \<in> set (map fst kvs))"
| "py_in needle _ = Inl TypeError"

text \<open>\<^verbatim>\<open>s.split(sep, 1)\<close> for a one-character separator: at most one cut, at the first
  occurrence.\<close>

definition split1 :: "char \<Rightarrow> string \<Rightarrow> string list" where
  "split1 sep s =
     (case dropWhile (\<lambda>c. c \<noteq> sep) s of
        [] \<Rightarrow> [s]
      | _ # rest \<Rightarrow> [takeWhile (\<lambda>c. c \<noteq> sep) s, rest])"

text \<open>\<^verbatim>\<open>xs[i]\<close> on a list, for an index \<open>i \<ge> 0\<close>.\<close>

definition index :: "'a list \<Rightarrow> nat \<Rightarrow> exn + 'a" where
  "index xs i = (if i < length xs then Inr (xs ! i) else Inl IndexError)"

subsection \<open>Configuration\<close>

text \<open>The module constants read from \<^verbatim>\<open>os.environ\<close> at import time.\<close>

record config =
  HOSTED_ZONE_ID :: string
  RECORD_NAME :: string
  PRIMARY_SET_ID :: string
  SECONDARY_SET_ID :: string
  PRIMARY_ALB_DNS :: string
  PRIMARY_ALB_ZONE_ID :: string
  SECONDARY_ALB_DNS :: string
  SECONDARY_ALB_ZONE_ID :: string
  PRIMARY_REGION_LABEL :: string
  SECONDARY_REGION_LABEL :: string

subsection \<open>Requests, responses and effects\<close>

record metric_request =
  Namespace :: string
  MetricName :: string
  Dimensions :: "(string \<times> string) list"
  StartTime :: int
  EndTime :: int
  Period :: int
  Statistics :: "string list"

text \<open>A datapoint is a \<^verbatim>\<open>dict\<close>: \<open>None\<close> is a key that is not there.\<close>

record datapoint =
  Timestamp :: "int option"
  Average :: "real option"

record metric_response =
  Datapoints :: "datapoint list option"

record alias_target =
  HostedZoneId :: string
  DNSName :: string
  EvaluateTargetHealth :: bool

record resource_record_set =
  Name :: string
  Type :: string
  SetIdentifier :: string
  Failover :: string
  TTL :: int
  AliasTarget :: alias_target

record change =
  Action :: string
  ResourceRecordSet :: resource_record_set

record change_batch =
  Comment :: string
  Changes :: "change list"

datatype level = INFO | WARNING | ERROR

datatype effect =
    Log level string
  | CloudWatchCall metric_request
  | Route53Call string change_batch

text \<open>What the handler does not compute itself: the clock, the two AWS clients and the
  JSON decoder.  A client call either raises or returns a response.\<close>

record world =
  utcnow :: int
  get_metric_statistics :: "metric_request \<Rightarrow> exn + metric_response"
  change_resource_record_sets :: "string \<Rightarrow> change_batch \<Rightarrow> exn + json"
  json_loads :: "string \<Rightarrow> exn + json"

definition cloudwatch_calls :: "effect list \<Rightarrow> metric_request list" where
  "cloudwatch_calls tr = concat (map (\<lambda>e. case e of CloudWatchCall r \<Rightarrow> [r] | _ \<Rightarrow> []) tr)"

definition route53_calls :: "effect list \<Rightarrow> (string \<times> change_batch) list" where
  "route53_calls tr = concat (map (\<lambda>e. case e of Route53Call z b \<Rightarrow> [(z, b)] | _ \<Rightarrow> []) tr)"

subsection \<open>Record publisher\<close>

text \<open>The list \<^verbatim>\<open>changes\<close> that \<^verbatim>\<open>upsert_failover_records\<close> builds, with the two branches
  of the source and its local names.\<close>

definition failover_changes :: "config \<Rightarrow> bool \<Rightarrow> change list" where
  "failover_changes cfg primary_is_east =
     (let (primary_alias, secondary_alias, primary_set_id, secondary_set_id,
           primary_fail, secondary_fail) =
        (if primary_is_east then
           (\<lparr>HostedZoneId = PRIMARY_ALB_ZONE_ID cfg, DNSName = PRIMARY_ALB_DNS cfg,
             EvaluateTargetHealth = False\<rparr>,
            \<lparr>HostedZoneId = SECONDARY_ALB_ZONE_ID cfg, DNSName = SECONDARY_ALB_DNS cfg,
             EvaluateTargetHealth = False\<rparr>,
            PRIMARY_SET_ID cfg, SECONDARY_SET_ID cfg, ''PRIMARY'', ''SECONDARY'')
         else
           (\<lparr>HostedZoneId = SECONDARY_ALB_ZONE_ID cfg, DNSName = SECONDARY_ALB_DNS cfg,
             EvaluateTargetHealth = False\<rparr>,
            \<lparr>HostedZoneId = PRIMARY_ALB_ZONE_ID cfg, DNSName = PRIMARY_ALB_DNS cfg,
             EvaluateTargetHealth = False\<rparr>,
            SECONDARY_SET_ID cfg, PRIMARY_SET_ID cfg, ''PRIMARY'', ''SECONDARY''))
      in [\<lparr>Action = ''UPSERT'',
           ResourceRecordSet =
             \<lparr>Name = RECORD_NAME cfg, Type = ''A'', SetIdentifier = primary_set_id,
              Failover = primary_fail, TTL = 60,
              AliasTarget =
                \<lparr>HostedZoneId = HostedZoneId primary_alias, DNSName = DNSName primary_alias,
                 EvaluateTargetHealth = EvaluateTargetHealth primary_alias\<rparr>\<rparr>\<rparr>,
          \<lparr>Action = ''UPSERT'',
           ResourceRecordSet =
             \<lparr>Name = RECORD_NAME cfg, Type = ''A'', SetIdentifier = secondary_set_id,
              Failover = secondary_fail, TTL = 60,
              AliasTarget =
                \<lparr>HostedZoneId = HostedZoneId secondary_alias,
                 DNSName = DNSName secondary_alias,
                 EvaluateTargetHealth = EvaluateTargetHealth secondary_alias\<rparr>\<rparr>\<rparr>])"

definition failover_batch :: "config \<Rightarrow> bool \<Rightarrow> change_batch" where
  "failover_batch cfg primary_is_east =
     \<lparr>Comment = ''Failover swap by Lambda'', Changes = failover_changes cfg primary_is_east\<rparr>"

text \<open>One call to Route53 with both entries; an exception of the client is not caught.\<close>

definition upsert_failover_records :: "config \<Rightarrow> world \<Rightarrow> bool \<Rightarrow> effect list \<times> (exn + json)" where
  "upsert_failover_records cfg w primary_is_east =
     (let batch = failover_batch cfg primary_is_east;
          tr = [Log INFO ''Applying Route53 ChangeResourceRecordSets with %s'',
                Route53Call (HOSTED_ZONE_ID cfg) batch]
      in case change_resource_record_sets w (HOSTED_ZONE_ID cfg) batch of
           Inl e \<Rightarrow> (tr, Inl e)
         | Inr resp \<Rightarrow> (tr @ [Log INFO ''Route53 response: %s''], Inr resp))"

subsection \<open>Health oracle\<close>

text \<open>\<^verbatim>\<open>sorted(datapoints, key=lambda d: d['Timestamp'])\<close>: the keys of all elements
  are computed first, so one datapoint without the key raises; the sort is stable.\<close>

definition sorted_by_Timestamp :: "datapoint list \<Rightarrow> exn + datapoint list" where
  "sorted_by_Timestamp datapoints =
     (if None \<in> set (map Timestamp datapoints) then Inl KeyError
      else Inr (sort_key (\<lambda>d. the (Timestamp d)) datapoints))"

text \<open>The body of the \<^verbatim>\<open>try\<close> block: five minutes are 300 seconds of the clock.\<close>

definition region_health_request :: "world \<Rightarrow> string \<Rightarrow> metric_request" where
  "region_health_request w region_label =
     (let end = utcnow w; start = end - 300
      in \<lparr>Namespace = ''MyApp/Failover'', MetricName = ''RegionHealth'',
          Dimensions = [(''Region'', region_label)], StartTime = start, EndTime = end,
          Period = 60, Statistics = [''Average'']\<rparr>)"

definition get_latest_region_health_try ::
    "world \<Rightarrow> string \<Rightarrow> effect list \<times> (exn + real option)" where
  "get_latest_region_health_try w region_label =
     (let req = region_health_request w region_label
      in case get_metric_statistics w req of
           Inl e \<Rightarrow> ([CloudWatchCall req], Inl e)
         | Inr resp \<Rightarrow>
             ([CloudWatchCall req],
              (let datapoints = (case Datapoints resp of None \<Rightarrow> [] | Some ds \<Rightarrow> ds)
               in if datapoints = [] then Inr None
                  else case sorted_by_Timestamp datapoints of
                         Inl e \<Rightarrow> Inl e
                       | Inr sorted_datapoints \<Rightarrow> Inr (Average (last sorted_datapoints)))))"

text \<open>\<^verbatim>\<open>except Exception\<close>: every exception of the body is logged and becomes
  \<^verbatim>\<open>None\<close>.\<close>

definition get_latest_region_health ::
    "world \<Rightarrow> string \<Rightarrow> effect list \<times> (exn + real option)" where
  "get_latest_region_health w region_label =
     (case get_latest_region_health_try w region_label of
        (tr, Inl e) \<Rightarrow> (tr @ [Log ERROR ''Failed to get metric for %s: %s''], Inr None)
      | (tr, Inr v) \<Rightarrow> (tr, Inr v))"

subsection \<open>Alarm interpreter\<close>

definition loads :: "world \<Rightarrow> json \<Rightarrow> exn + json" where
  "loads w message = (case message of JStr s \<Rightarrow> json_loads w s | _ \<Rightarrow> Inl TypeError)"

definition parse_sns_event_try :: "world \<Rightarrow> json \<Rightarrow> exn + json" where
  "parse_sns_event_try w event =
     (case getitem_str event ''Records'' of Inl e \<Rightarrow> Inl e | Inr records \<Rightarrow>
     (case getitem_0 records of Inl e \<Rightarrow> Inl e | Inr record0 \<Rightarrow>
     (case getitem_str record0 ''Sns'' of Inl e \<Rightarrow> Inl e | Inr sns_record \<Rightarrow>
     (case getitem_str sns_record ''Message'' of Inl e \<Rightarrow> Inl e | Inr message \<Rightarrow>
      loads w message))))"

definition parse_sns_event :: "world \<Rightarrow> json \<Rightarrow> effect list \<times> (exn + json)" where
  "parse_sns_event w event =
     (case parse_sns_event_try w event of
        Inl e \<Rightarrow> ([Log ERROR ''Failed to parse SNS event: %s''], Inr JNull)
      | Inr msg \<Rightarrow> ([], Inr msg))"

text \<open>The string \<^verbatim>\<open>expected\<close> is computed and not used; computing it raises when
  \<^verbatim>\<open>RECORD_NAME\<close> has no dot.\<close>

definition var_is_primary_alarm :: "config \<Rightarrow> json \<Rightarrow> exn + bool" where
  "var_is_primary_alarm cfg alarm_name =
     (case index (split1 CHR ''.'' (RECORD_NAME cfg)) 1 of
        Inl e \<Rightarrow> Inl e
      | Inr domain \<Rightarrow>
          (let expected = ''RegionDown-'' @ PRIMARY_REGION_LABEL cfg @ ''-'' @ domain
           in if \<not> truthy alarm_name then Inr False
              else case py_in (PRIMARY_REGION_LABEL cfg) alarm_name of
                     Inl e \<Rightarrow> Inl e
                   | Inr b \<Rightarrow> Inr b))"

subsection \<open>Failover decision engine\<close>

definition lambda_handler :: "config \<Rightarrow> world \<Rightarrow> json \<Rightarrow> effect list \<times> (exn + unit)" where
  "lambda_handler cfg w event =
     (case parse_sns_event w event of
        (tr0, Inl e) \<Rightarrow> (Log INFO ''Event: %s'' # tr0, Inl e)
      | (tr0, Inr msg) \<Rightarrow>
     (let tr1 = Log INFO ''Event: %s'' # tr0 in
      if \<not> truthy msg then (tr1 @ [Log ERROR ''No parsed message, aborting''], Inr ())
      else
     (case py_get msg ''AlarmName'' of Inl e \<Rightarrow> (tr1, Inl e) | Inr alarm_name \<Rightarrow>
     (case py_get msg ''NewStateValue'' of Inl e \<Rightarrow> (tr1, Inl e) | Inr new_state \<Rightarrow>
     (let tr2 = tr1 @ [Log INFO ''Alarm %s changed to %s''] in
      case var_is_primary_alarm cfg alarm_name of
        Inl e \<Rightarrow> (tr2, Inl e)
      | Inr False \<Rightarrow>
          (tr2 @ [Log INFO ''Alarm is not primary alarm; ignoring in this version''], Inr ())
      | Inr True \<Rightarrow>
     (let tr3 = tr2 @ [Log INFO ''Event for primary alarm''] in
      if new_state = JStr ''ALARM'' then
        (case get_latest_region_health w (SECONDARY_REGION_LABEL cfg) of
           (trh, Inl e) \<Rightarrow> (tr3 @ trh, Inl e)
         | (trh, Inr sec_health) \<Rightarrow>
        (let tr4 = tr3 @ trh @ [Log INFO ''Secondary region latest health datapoint: %s''] in
         case sec_health of
           None \<Rightarrow> (tr4 @ [Log WARNING ''No datapoint for secondary; aborting switch''], Inr ())
         | Some h \<Rightarrow>
             if h \<le> 0.5 then
               (tr4 @ [Log ERROR ''Secondary appears unhealthy (%s); aborting failover''],
                Inr ())
             else
               (case upsert_failover_records cfg w False of
                  (tru, Inl e) \<Rightarrow> (tr4 @ tru, Inl e)
                | (tru, Inr resp) \<Rightarrow>
                    (tr4 @ tru @ [Log INFO ''Switched to secondary as PRIMARY''], Inr ()))))
      else if new_state = JStr ''OK'' then
        (case get_latest_region_health w (PRIMARY_REGION_LABEL cfg) of
           (trh, Inl e) \<Rightarrow> (tr3 @ trh, Inl e)
         | (trh, Inr pri_health) \<Rightarrow>
        (let tr4 = tr3 @ trh @ [Log INFO ''Primary latest health datapoint: %s''] in
         if pri_health = None \<or> the pri_health \<le> 0.5 then
           (tr4 @ [Log WARNING ''Primary not healthy enough to revert. Skipping revert.''],
            Inr ())
         else
           (case upsert_failover_records cfg w True of
              (tru, Inl e) \<Rightarrow> (tr4 @ tru, Inl e)
            | (tru, Inr resp) \<Rightarrow>
                (tr4 @ tru @ [Log INFO ''Reverted to primary as PRIMARY''], Inr ()))))
      else (tr3 @ [Log INFO ''Unhandled new state: %s''], Inr ())))))))"

subsection \<open>The hosted zone\<close>

text \<open>
  Route53 is outside the program.  For the round trip of publishes its \<^verbatim>\<open>UPSERT\<close> is
  taken as create-or-replace: a record set is identified by name, type and set
  identifier, and an \<^verbatim>\<open>UPSERT\<close> stores the submitted record set under that key.  A batch
  applies its changes in order.
\<close>

type_synonym zone = "string \<times> string \<times> string \<rightharpoonup> resource_record_set"

definition apply_change :: "zone \<Rightarrow> change \<Rightarrow> zone" where
  "apply_change z c =
     (let rrs = ResourceRecordSet c
      in if Action c = ''UPSERT'' then z((Name rrs, Type rrs, SetIdentifier rrs) \<mapsto> rrs)
         else z)"

definition apply_batch :: "zone \<Rightarrow> change_batch \<Rightarrow> zone" where
  "apply_batch z b = foldl apply_change z (Changes b)"

text \<open>Reading a change list: the endpoint bound to a role, the endpoint and the role
  bound to a set identifier.\<close>

definition endpoint_of_role :: "change list \<Rightarrow> string \<Rightarrow> alias_target option" where
  "endpoint_of_role cs role =
     map_of (map (\<lambda>c. (Failover (ResourceRecordSet c), AliasTarget (ResourceRecordSet c))) cs) role"

definition endpoint_of_set_id :: "change list \<Rightarrow> string \<Rightarrow> alias_target option" where
  "endpoint_of_set_id cs set_id =
     map_of (map (\<lambda>c. (SetIdentifier (ResourceRecordSet c), AliasTarget (ResourceRecordSet c))) cs)
       set_id"

definition role_of_set_id :: "change list \<Rightarrow> string \<Rightarrow> string option" where
  "role_of_set_id cs set_id =
     map_of (map (\<lambda>c. (SetIdentifier (ResourceRecordSet c), Failover (ResourceRecordSet c))) cs)
       set_id"

text \<open>The two configured endpoints as alias targets, and the shape of one entry of
  the change list.\<close>

definition primary_endpoint :: "config \<Rightarrow> alias_target" where
  "primary_endpoint cfg =
     \<lparr>HostedZoneId = PRIMARY_ALB_ZONE_ID cfg, DNSName = PRIMARY_ALB_DNS cfg,
      EvaluateTargetHealth = False\<rparr>"

definition secondary_endpoint :: "config \<Rightarrow> alias_target" where
  "secondary_endpoint cfg =
     \<lparr>HostedZoneId = SECONDARY_ALB_ZONE_ID cfg, DNSName = SECONDARY_ALB_DNS cfg,
      EvaluateTargetHealth = False\<rparr>"

definition entry :: "config \<Rightarrow> string \<Rightarrow> string \<Rightarrow> alias_target \<Rightarrow> change" where
  "entry cfg set_id role target =
     \<lparr>Action = ''UPSERT'',
      ResourceRecordSet =
        \<lparr>Name = RECORD_NAME cfg, Type = ''A'', SetIdentifier = set_id, Failover = role,
         TTL = 60, AliasTarget = target\<rparr>\<rparr>"

subsection \<open>A concrete deployment\<close>

definition example_config :: config where
  "example_config =
     \<lparr>HOSTED_ZONE_ID = ''Z1'', RECORD_NAME = ''www.example.com'',
      PRIMARY_SET_ID = ''east-set'', SECONDARY_SET_ID = ''west-set'',
      PRIMARY_ALB_DNS = ''east.elb.amazonaws.com'', PRIMARY_ALB_ZONE_ID = ''ZE'',
      SECONDARY_ALB_DNS = ''west.elb.amazonaws.com'', SECONDARY_ALB_ZONE_ID = ''ZW'',
      PRIMARY_REGION_LABEL = ''east'', SECONDARY_REGION_LABEL = ''west''\<rparr>"

definition example_event :: "string \<Rightarrow> json" where
  "example_event message =
     JObj [(''Records'', JArr [JObj [(''Sns'', JObj [(''Message'', JStr message)])]])]"

text \<open>A decoder that knows four alarm documents, named by short texts.\<close>

definition example_loads :: "string \<Rightarrow> exn + json" where
  "example_loads s =
     (if s = ''east-alarm'' then
        Inr (JObj [(''AlarmName'', JStr ''RegionDown-east-example.com''),
                   (''NewStateValue'', JStr ''ALARM'')])
      else if s = ''east-ok'' then
        Inr (JObj [(''AlarmName'', JStr ''RegionDown-east-example.com''),
                   (''NewStateValue'', JStr ''OK'')])
      else if s = ''west-alarm'' then
        Inr (JObj [(''AlarmName'', JStr ''RegionDown-west-example.com''),
                   (''NewStateValue'', JStr ''ALARM'')])
      else if s = ''no-name'' then
        Inr (JObj [(''NewStateValue'', JStr ''ALARM'')])
      else Inl JSONDecodeError)"

text \<open>A world whose CloudWatch answers every query with the given datapoints and
  whose Route53 accepts every batch.\<close>

definition example_world :: "datapoint list \<Rightarrow> world" where
  "example_world ds =
     \<lparr>utcnow = 1000,
      get_metric_statistics = (\<lambda>req. Inr \<lparr>Datapoints = Some ds\<rparr>),
      change_resource_record_sets = (\<lambda>z b. Inr (JObj [(''ChangeInfo'', JStr ''PENDING'')])),
      json_loads = example_loads\<rparr>"

text \<open>A world whose CloudWatch client raises.\<close>

definition failing_world :: world where
  "failing_world =
     \<lparr>utcnow = 1000,
      get_metric_statistics = (\<lambda>req. Inl ClientError),
      change_resource_record_sets = (\<lambda>z b. Inr (JObj [(''ChangeInfo'', JStr ''PENDING'')])),
      json_loads = example_loads\<rparr>"

definition dotless_config :: config where
  "dotless_config = example_config\<lparr>RECORD_NAME := ''localhost''\<rparr>"

text \<open>Datapoints: the later one comes first and has the smaller value; one just above
  the threshold; one on the threshold.\<close>

definition two_samples :: "datapoint list" where
  "two_samples =
     [\<lparr>Timestamp = Some 20, Average = Some 0.2\<rparr>, \<lparr>Timestamp = Some 10, Average = Some 0.9\<rparr>]"

definition healthy_sample :: "datapoint list" where
  "healthy_sample = [\<lparr>Timestamp = Some 1, Average = Some 0.51\<rparr>]"

definition threshold_sample :: "datapoint list" where
  "threshold_sample = [\<lparr>Timestamp = Some 1, Average = Some 0.5\<rparr>]"

subsection \<open>The threshold, for stating properties\<close>

text \<open>A sample counts as healthy when it is present and strictly above 0.5.  The handler
  does not call this predicate: it tests \<^verbatim>\<open>is None\<close> and \<^verbatim>\<open><= 0.5\<close>.\<close>

definition healthy :: "real option \<Rightarrow> bool" where
  "healthy sample = (case sample of None \<Rightarrow> False | Some h \<Rightarrow> 0.5 < h)"

section \<open>Properties\<close>

subsection \<open>Traces\<close>

lemma cloudwatch_calls_append:
  "cloudwatch_calls (xs @ ys) = cloudwatch_calls xs @ cloudwatch_calls ys"
  by (simp add: cloudwatch_calls_def)

lemma route53_calls_append:
  "route53_calls (xs @ ys) = route53_calls xs @ route53_calls ys"
  by (simp add: route53_calls_def)

lemma calls_Log:
  "cloudwatch_calls (Log l m # tr) = cloudwatch_calls tr"
  "route53_calls (Log l m # tr) = route53_calls tr"
  by (simp_all add: cloudwatch_calls_def route53_calls_def)

lemma calls_Nil:
  "cloudwatch_calls [] = []"
  "route53_calls [] = []"
  by (simp_all add: cloudwatch_calls_def route53_calls_def)

subsection \<open>Record publisher\<close>

lemma failover_changes_True:
  "failover_changes cfg True =
     [entry cfg (PRIMARY_SET_ID cfg) ''PRIMARY'' (primary_endpoint cfg),
      entry cfg (SECONDARY_SET_ID cfg) ''SECONDARY'' (secondary_endpoint cfg)]"
  by (simp add: failover_changes_def entry_def primary_endpoint_def secondary_endpoint_def)

lemma failover_changes_False:
  "failover_changes cfg False =
     [entry cfg (SECONDARY_SET_ID cfg) ''PRIMARY'' (secondary_endpoint cfg),
      entry cfg (PRIMARY_SET_ID cfg) ''SECONDARY'' (primary_endpoint cfg)]"
  by (simp add: failover_changes_def entry_def primary_endpoint_def secondary_endpoint_def)

lemma route53_calls_upsert:
  "route53_calls (fst (upsert_failover_records cfg w b)) =
     [(HOSTED_ZONE_ID cfg, failover_batch cfg b)]"
  by (simp add: upsert_failover_records_def route53_calls_def Let_def split: sum.splits)

lemma cloudwatch_calls_upsert:
  "cloudwatch_calls (fst (upsert_failover_records cfg w b)) = []"
  by (simp add: upsert_failover_records_def cloudwatch_calls_def Let_def split: sum.splits)

lemma apply_entry:
  "apply_change z (entry cfg s r t) =
     z((RECORD_NAME cfg, ''A'', s) \<mapsto> ResourceRecordSet (entry cfg s r t))"
  by (simp add: apply_change_def entry_def)

text \<open>
  C1, as the code has it.  For either value of the flag each configured set identifier
  is submitted with the endpoint of its own region: \<^verbatim>\<open>PRIMARY_SET_ID\<close> with the primary
  load balancer, \<^verbatim>\<open>SECONDARY_SET_ID\<close> with the secondary one.  What the flag moves is the
  role tag: when the secondary region is designated, the entry carrying
  \<^verbatim>\<open>SECONDARY_SET_ID\<close> is tagged PRIMARY and the entry carrying \<^verbatim>\<open>PRIMARY_SET_ID\<close> is tagged
  SECONDARY, so the PRIMARY role is bound to the secondary endpoint and the SECONDARY role
  to the primary endpoint.
\<close>

theorem set_id_follows_endpoint:
  "map (\<lambda>c. (SetIdentifier (ResourceRecordSet c), Failover (ResourceRecordSet c),
             AliasTarget (ResourceRecordSet c))) (failover_changes cfg False) =
     [(SECONDARY_SET_ID cfg, ''PRIMARY'', secondary_endpoint cfg),
      (PRIMARY_SET_ID cfg, ''SECONDARY'', primary_endpoint cfg)]
   \<and> map (\<lambda>c. (SetIdentifier (ResourceRecordSet c), Failover (ResourceRecordSet c),
             AliasTarget (ResourceRecordSet c))) (failover_changes cfg True) =
     [(PRIMARY_SET_ID cfg, ''PRIMARY'', primary_endpoint cfg),
      (SECONDARY_SET_ID cfg, ''SECONDARY'', secondary_endpoint cfg)]
   \<and> endpoint_of_role (failover_changes cfg False) ''PRIMARY'' = Some (secondary_endpoint cfg)
   \<and> endpoint_of_role (failover_changes cfg False) ''SECONDARY'' = Some (primary_endpoint cfg)"
  by (simp add: failover_changes_True failover_changes_False entry_def endpoint_of_role_def)

text \<open>
  C1, as the claim words it, fails on the example deployment: in the batch that
  designates the secondary region, the set identifier of the primary slot is not bound to
  the secondary endpoint, the set identifier of the secondary slot is not bound to the
  primary endpoint, and neither set identifier keeps its role.
\<close>

theorem set_id_follows_role_counterexample:
  "endpoint_of_set_id (failover_changes example_config False) (PRIMARY_SET_ID example_config)
     \<noteq> Some (secondary_endpoint example_config)
   \<and> endpoint_of_set_id (failover_changes example_config False) (SECONDARY_SET_ID example_config)
     \<noteq> Some (primary_endpoint example_config)
   \<and> role_of_set_id (failover_changes example_config False) (PRIMARY_SET_ID example_config)
     \<noteq> Some ''PRIMARY''
   \<and> role_of_set_id (failover_changes example_config False) (SECONDARY_SET_ID example_config)
     \<noteq> Some ''SECONDARY''"
  by (simp add: failover_changes_False entry_def endpoint_of_set_id_def role_of_set_id_def
      example_config_def primary_endpoint_def secondary_endpoint_def)

text \<open>
  C9.  For either value of the flag, \<^verbatim>\<open>upsert_failover_records\<close> calls Route53 once, on
  the configured hosted zone, with a batch of exactly two entries: both UPSERT, both with
  the configured record name and type A, the first tagged PRIMARY and the second
  SECONDARY, both with TTL 60 and with target health evaluation switched off.
\<close>

theorem publish_batch_shape:
  "(\<exists>c1 c2. failover_changes cfg b = [c1, c2]
      \<and> Action c1 = ''UPSERT'' \<and> Action c2 = ''UPSERT''
      \<and> Name (ResourceRecordSet c1) = RECORD_NAME cfg
      \<and> Name (ResourceRecordSet c2) = RECORD_NAME cfg
      \<and> Type (ResourceRecordSet c1) = ''A'' \<and> Type (ResourceRecordSet c2) = ''A''
      \<and> Failover (ResourceRecordSet c1) = ''PRIMARY''
      \<and> Failover (ResourceRecordSet c2) = ''SECONDARY''
      \<and> TTL (ResourceRecordSet c1) = 60 \<and> TTL (ResourceRecordSet c2) = 60
      \<and> EvaluateTargetHealth (AliasTarget (ResourceRecordSet c1)) = False
      \<and> EvaluateTargetHealth (AliasTarget (ResourceRecordSet c2)) = False)
   \<and> route53_calls (fst (upsert_failover_records cfg w b)) =
       [(HOSTED_ZONE_ID cfg, failover_batch cfg b)]
   \<and> Changes (failover_batch cfg b) = failover_changes cfg b"
  by (cases b)
    (simp_all add: failover_changes_True failover_changes_False route53_calls_upsert
      failover_batch_def entry_def primary_endpoint_def secondary_endpoint_def)

text \<open>
  C10.  Three publishes in a row, with the flag true, false, true, in any three worlds:
  the batches submitted are those of the flag alone, so the third batch is the first one
  and binds each role to the endpoint the first one bound it to; and a hosted zone that
  applies the three batches holds what it held after the first.
\<close>

theorem publish_round_trip:
  "route53_calls (fst (upsert_failover_records cfg w1 True)
       @ fst (upsert_failover_records cfg w2 False)
       @ fst (upsert_failover_records cfg w3 True)) =
     [(HOSTED_ZONE_ID cfg, failover_batch cfg True),
      (HOSTED_ZONE_ID cfg, failover_batch cfg False),
      (HOSTED_ZONE_ID cfg, failover_batch cfg True)]
   \<and> endpoint_of_role (Changes (failover_batch cfg True)) ''PRIMARY'' =
       Some (primary_endpoint cfg)
   \<and> endpoint_of_role (Changes (failover_batch cfg True)) ''SECONDARY'' =
       Some (secondary_endpoint cfg)
   \<and> apply_batch
       (apply_batch (apply_batch z (failover_batch cfg True)) (failover_batch cfg False))
       (failover_batch cfg True) =
     apply_batch z (failover_batch cfg True)"
proof -
  have calls: "route53_calls (fst (upsert_failover_records cfg w1 True)
       @ fst (upsert_failover_records cfg w2 False)
       @ fst (upsert_failover_records cfg w3 True)) =
     [(HOSTED_ZONE_ID cfg, failover_batch cfg True),
      (HOSTED_ZONE_ID cfg, failover_batch cfg False),
      (HOSTED_ZONE_ID cfg, failover_batch cfg True)]"
    by (simp add: route53_calls_append route53_calls_upsert)
  have roles: "endpoint_of_role (Changes (failover_batch cfg True)) ''PRIMARY'' =
       Some (primary_endpoint cfg)"
    "endpoint_of_role (Changes (failover_batch cfg True)) ''SECONDARY'' =
       Some (secondary_endpoint cfg)"
    by (simp_all add: failover_batch_def failover_changes_True entry_def endpoint_of_role_def)
  have zone: "apply_batch
       (apply_batch (apply_batch z (failover_batch cfg True)) (failover_batch cfg False))
       (failover_batch cfg True) =
     apply_batch z (failover_batch cfg True)"
    by (auto simp add: apply_batch_def failover_batch_def failover_changes_True
        failover_changes_False apply_entry fun_eq_iff)
  from calls roles zone show ?thesis by simp
qed

subsection \<open>Alarm classifier\<close>

lemma str_contains_sublist: "str_contains s needle = sublist needle s"
  by (induction s) (simp_all add: sublist_Cons_right)

lemma index_split1:
  "index (split1 CHR ''.'' s) (Suc 0) =
     (if CHR ''.'' \<in> set s then Inr (tl (dropWhile (\<lambda>c. c \<noteq> CHR ''.'') s)) else Inl IndexError)"
proof (cases "CHR ''.'' \<in> set s")
  case True
  then have "dropWhile (\<lambda>c. c \<noteq> CHR ''.'') s \<noteq> []"
    by (simp add: dropWhile_eq_Nil_conv)
  then obtain c rest where h: "dropWhile (\<lambda>c. c \<noteq> CHR ''.'') s = c # rest"
    by (cases "dropWhile (\<lambda>c. c \<noteq> CHR ''.'') s") auto
  show ?thesis unfolding split1_def index_def h using True by simp
next
  case False
  then have h: "dropWhile (\<lambda>c. c \<noteq> CHR ''.'') s = []"
    by (auto simp: dropWhile_eq_Nil_conv)
  show ?thesis unfolding split1_def index_def h using False by simp
qed

lemma var_is_primary_alarm_no_dot:
  "CHR ''.'' \<notin> set (RECORD_NAME cfg) \<Longrightarrow> var_is_primary_alarm cfg a = Inl IndexError"
  by (simp add: var_is_primary_alarm_def index_split1)

lemma var_is_primary_alarm_dot:
  "CHR ''.'' \<in> set (RECORD_NAME cfg) \<Longrightarrow>
   var_is_primary_alarm cfg a =
     (if \<not> truthy a then Inr False
      else case py_in (PRIMARY_REGION_LABEL cfg) a of Inl e \<Rightarrow> Inl e | Inr b \<Rightarrow> Inr b)"
  by (simp add: var_is_primary_alarm_def index_split1 Let_def)

lemma var_is_primary_alarm_JStr:
  "CHR ''.'' \<in> set (RECORD_NAME cfg) \<Longrightarrow>
   var_is_primary_alarm cfg (JStr s) = Inr (s \<noteq> [] \<and> sublist (PRIMARY_REGION_LABEL cfg) s)"
  by (simp add: var_is_primary_alarm_dot str_contains_sublist)

lemma var_is_primary_alarm_JNull:
  "CHR ''.'' \<in> set (RECORD_NAME cfg) \<Longrightarrow> var_is_primary_alarm cfg JNull = Inr False"
  by (simp add: var_is_primary_alarm_dot)

subsection \<open>Health oracle\<close>

lemma sorted_last_max:
  "sorted (map f ys) \<Longrightarrow> y \<in> set ys \<Longrightarrow> f y \<le> f (last ys)"
  by (induction ys) (auto split: if_splits)

lemma last_filter_self:
  "xs \<noteq> [] \<Longrightarrow> P (last xs) \<Longrightarrow> last (filter P xs) = last xs"
proof (induction xs)
  case Nil
  then show ?case by simp
next
  case (Cons a xs)
  show ?case
  proof (cases "xs = []")
    case True
    with Cons.prems show ?thesis by simp
  next
    case False
    with Cons.prems have P: "P (last xs)" by simp
    moreover have "last xs \<in> set xs" using False by (rule last_in_set)
    ultimately have "filter P xs \<noteq> []" by (auto simp: filter_empty_conv)
    with Cons.IH [OF False P] False show ?thesis by simp
  qed
qed

lemma sort_key_not_Nil: "xs \<noteq> [] \<Longrightarrow> sort_key f xs \<noteq> []"
  by (metis length_sort length_0_conv)

lemma last_sort_key_in_set: "xs \<noteq> [] \<Longrightarrow> last (sort_key f xs) \<in> set xs"
  using last_in_set [OF sort_key_not_Nil, of xs f] by simp

lemma last_sort_key_max: "x \<in> set xs \<Longrightarrow> f x \<le> f (last (sort_key f xs))"
  using sorted_last_max [of f "sort_key f xs" x] by simp

lemma last_sort_key_stable:
  assumes "xs \<noteq> []"
  shows "last (sort_key f xs) = last (filter (\<lambda>y. f y = f (last (sort_key f xs))) xs)"
proof -
  have "last (filter (\<lambda>y. f y = f (last (sort_key f xs))) (sort_key f xs)) = last (sort_key f xs)"
    using sort_key_not_Nil [OF assms] by (rule last_filter_self) simp
  then show ?thesis by (simp add: sort_key_stable)
qed

lemma get_latest_region_health_total:
  "\<exists>tr v. get_latest_region_health w l = (tr, Inr v)"
  by (cases "get_latest_region_health_try w l")
     (auto simp: get_latest_region_health_def split: sum.splits)

lemma cloudwatch_calls_health:
  "cloudwatch_calls (fst (get_latest_region_health w l)) = [region_health_request w l]"
  by (simp add: get_latest_region_health_def get_latest_region_health_try_def Let_def
      cloudwatch_calls_def split: sum.splits prod.splits)

lemma route53_calls_health:
  "route53_calls (fst (get_latest_region_health w l)) = []"
  by (simp add: get_latest_region_health_def get_latest_region_health_try_def Let_def
      route53_calls_def split: sum.splits prod.splits)

text \<open>
  C6.  When the CloudWatch query raises, \<^verbatim>\<open>get_latest_region_health\<close> logs the failure
  and returns \<^verbatim>\<open>None\<close>; when the response has no \<^verbatim>\<open>Datapoints\<close> or an empty list,
  it returns \<^verbatim>\<open>None\<close>; when anything in the body of the \<^verbatim>\<open>try\<close> raises, the exception
  is logged and the result is \<^verbatim>\<open>None\<close>; and in every world and for every label it
  returns a value, that is, it never raises.
\<close>

theorem health_absent:
  "(get_metric_statistics w (region_health_request w l) = Inl e \<longrightarrow>
      get_latest_region_health w l =
        ([CloudWatchCall (region_health_request w l),
          Log ERROR ''Failed to get metric for %s: %s''], Inr None))
   \<and> (get_metric_statistics w (region_health_request w l) = Inr resp
        \<and> (Datapoints resp = None \<or> Datapoints resp = Some []) \<longrightarrow>
      get_latest_region_health w l = ([CloudWatchCall (region_health_request w l)], Inr None))
   \<and> (snd (get_latest_region_health_try w l) = Inl e' \<longrightarrow>
      get_latest_region_health w l =
        (fst (get_latest_region_health_try w l) @ [Log ERROR ''Failed to get metric for %s: %s''],
         Inr None))
   \<and> (\<exists>v. snd (get_latest_region_health w l) = Inr v)"
proof -
  have raised: "get_latest_region_health w l =
        (fst (get_latest_region_health_try w l) @ [Log ERROR ''Failed to get metric for %s: %s''],
         Inr None)"
    if "snd (get_latest_region_health_try w l) = Inl e'"
    using that
    by (cases "get_latest_region_health_try w l") (simp add: get_latest_region_health_def)
  have query: "get_latest_region_health w l =
        ([CloudWatchCall (region_health_request w l),
          Log ERROR ''Failed to get metric for %s: %s''], Inr None)"
    if "get_metric_statistics w (region_health_request w l) = Inl e"
    using that
    by (simp add: get_latest_region_health_def get_latest_region_health_try_def Let_def)
  have empty: "get_latest_region_health w l =
        ([CloudWatchCall (region_health_request w l)], Inr None)"
    if "get_metric_statistics w (region_health_request w l) = Inr resp"
      and "Datapoints resp = None \<or> Datapoints resp = Some []"
    using that
    by (auto simp: get_latest_region_health_def get_latest_region_health_try_def Let_def)
  from raised query empty get_latest_region_health_total [of w l] show ?thesis
    by (metis snd_conv)
qed

theorem health_absent_witness:
  "get_metric_statistics failing_world (region_health_request failing_world ''west'') = Inl ClientError
   \<and> get_latest_region_health failing_world ''west'' =
        ([CloudWatchCall (region_health_request failing_world ''west''),
          Log ERROR ''Failed to get metric for %s: %s''], Inr None)
   \<and> get_metric_statistics (example_world []) (region_health_request (example_world []) ''west'')
        = Inr \<lparr>Datapoints = Some []\<rparr>
   \<and> get_latest_region_health (example_world []) ''west'' =
        ([CloudWatchCall (region_health_request (example_world []) ''west'')], Inr None)"
  using health_absent [of failing_world "''west''" ClientError]
    health_absent [of "example_world []" "''west''" _ "\<lparr>Datapoints = Some []\<rparr>"]
  by (simp add: failing_world_def example_world_def)

text \<open>
  C7.  For a non-empty list of datapoints that all carry a timestamp, the value returned
  is the \<^verbatim>\<open>Average\<close> of a datapoint of the list whose timestamp is the greatest of the
  list; among several datapoints with that timestamp it is the last one in the order of
  the response.  The values play no part in the choice.
\<close>

theorem health_latest_timestamp:
  assumes "get_metric_statistics w (region_health_request w l) = Inr resp"
    and "Datapoints resp = Some ds" and "ds \<noteq> []"
    and "None \<notin> set (map Timestamp ds)"
  shows "\<exists>d \<in> set ds.
           (\<forall>d' \<in> set ds. the (Timestamp d') \<le> the (Timestamp d))
         \<and> d = last (filter (\<lambda>d'. the (Timestamp d') = the (Timestamp d)) ds)
         \<and> snd (get_latest_region_health w l) = Inr (Average d)"
proof -
  let ?d = "last (sort_key (\<lambda>d. the (Timestamp d)) ds)"
  have res: "snd (get_latest_region_health w l) = Inr (Average ?d)"
    using assms
    by (simp add: get_latest_region_health_def get_latest_region_health_try_def Let_def
        sorted_by_Timestamp_def)
  have "?d \<in> set ds" using assms(3) by (rule last_sort_key_in_set)
  moreover have "\<forall>d' \<in> set ds. the (Timestamp d') \<le> the (Timestamp ?d)"
    using last_sort_key_max [of _ ds "\<lambda>d. the (Timestamp d)"] by blast
  moreover have "?d = last (filter (\<lambda>d'. the (Timestamp d') = the (Timestamp ?d)) ds)"
    using assms(3) by (rule last_sort_key_stable)
  ultimately show ?thesis using res by blast
qed

theorem health_latest_timestamp_witness:
  "get_metric_statistics (example_world two_samples)
       (region_health_request (example_world two_samples) ''west'') =
     Inr \<lparr>Datapoints = Some two_samples\<rparr>
   \<and> two_samples \<noteq> []
   \<and> None \<notin> set (map Timestamp two_samples)
   \<and> (\<exists>d \<in> set two_samples.
           (\<forall>d' \<in> set two_samples. the (Timestamp d') \<le> the (Timestamp d))
         \<and> d = last (filter (\<lambda>d'. the (Timestamp d') = the (Timestamp d)) two_samples)
         \<and> snd (get_latest_region_health (example_world two_samples) ''west'') = Inr (Average d))
   \<and> snd (get_latest_region_health (example_world two_samples) ''west'') = Inr (Some 0.2)"
proof -
  have h1: "get_metric_statistics (example_world two_samples)
       (region_health_request (example_world two_samples) ''west'') =
     Inr \<lparr>Datapoints = Some two_samples\<rparr>"
    by (simp add: example_world_def)
  have h2: "Datapoints \<lparr>Datapoints = Some two_samples\<rparr> = Some two_samples" by simp
  have h3: "two_samples \<noteq> []" by (simp add: two_samples_def)
  have h4: "None \<notin> set (map Timestamp two_samples)" by (simp add: two_samples_def)
  have v: "snd (get_latest_region_health (example_world two_samples) ''west'') = Inr (Some 0.2)"
    by (simp add: get_latest_region_health_def get_latest_region_health_try_def Let_def
        sorted_by_Timestamp_def example_world_def two_samples_def)
  from health_latest_timestamp [OF h1 h2 h3 h4] h1 h3 h4 v show ?thesis by blast
qed

subsection \<open>Alarm interpreter and decision engine\<close>

lemma parse_sns_event_calls:
  "parse_sns_event w event = (tr0, r) \<Longrightarrow> cloudwatch_calls tr0 = [] \<and> route53_calls tr0 = []"
  by (auto simp: parse_sns_event_def cloudwatch_calls_def route53_calls_def split: sum.splits)

lemma parse_sns_event_total:
  "\<exists>tr0 msg. parse_sns_event w event = (tr0, Inr msg)"
  by (simp add: parse_sns_event_def split: sum.splits)

lemma health_calls:
  "get_latest_region_health w l = (trh, r) \<Longrightarrow>
   cloudwatch_calls trh = [region_health_request w l] \<and> route53_calls trh = []"
  using cloudwatch_calls_health [of w l] route53_calls_health [of w l] by simp

lemma upsert_calls:
  "upsert_failover_records cfg w b = (tru, r) \<Longrightarrow>
   cloudwatch_calls tru = [] \<and> route53_calls tru = [(HOSTED_ZONE_ID cfg, failover_batch cfg b)]"
  using cloudwatch_calls_upsert [of cfg w b] route53_calls_upsert [of cfg w b] by simp

lemmas calls_simps = cloudwatch_calls_append route53_calls_append calls_Log calls_Nil

lemma py_get_both:
  assumes "py_get msg k = Inr v"
  shows "\<exists>v'. py_get msg k' = Inr v'"
proof -
  obtain kvs where "msg = JObj kvs" using assms by (cases msg) simp_all
  then show ?thesis by (cases "map_of kvs k'") simp_all
qed

lemma example_classified:
  "var_is_primary_alarm example_config (JStr ''RegionDown-east-example.com'') = Inr True"
  "var_is_primary_alarm example_config (JStr ''RegionDown-west-example.com'') = Inr False"
  "var_is_primary_alarm example_config JNull = Inr False"
  by (simp_all add: var_is_primary_alarm_def example_config_def split1_def index_def)

lemma example_parse:
  "parse_sns_event (example_world ds) (example_event s) =
     (case example_loads s of
        Inl e \<Rightarrow> ([Log ERROR ''Failed to parse SNS event: %s''], Inr JNull)
      | Inr msg \<Rightarrow> ([], Inr msg))"
  by (simp add: parse_sns_event_def parse_sns_event_try_def example_event_def loads_def
      example_world_def)

text \<open>
  C2.  For a decoded message whose alarm name is classified as the primary alarm and whose
  new state is \<^verbatim>\<open>ALARM\<close>: the health of the secondary region is queried, once; Route53
  is called, once and with the batch that designates the secondary region, exactly when
  the sample is present and strictly above 0.5; otherwise no call to Route53 is made and
  the handler returns.
\<close>

theorem alarm_publishes_iff_secondary_healthy:
  assumes "parse_sns_event w event = (tr0, Inr msg)" and "truthy msg"
    and "py_get msg ''AlarmName'' = Inr alarm_name"
    and "py_get msg ''NewStateValue'' = Inr (JStr ''ALARM'')"
    and "var_is_primary_alarm cfg alarm_name = Inr True"
    and "get_latest_region_health w (SECONDARY_REGION_LABEL cfg) = (trh, Inr sec_health)"
  shows "route53_calls (fst (lambda_handler cfg w event)) =
           (if healthy sec_health
            then [(HOSTED_ZONE_ID cfg, failover_batch cfg False)] else [])
       \<and> cloudwatch_calls (fst (lambda_handler cfg w event)) =
           [region_health_request w (SECONDARY_REGION_LABEL cfg)]
       \<and> (healthy sec_health \<or> snd (lambda_handler cfg w event) = Inr ())"
proof -
  obtain tru r where u: "upsert_failover_records cfg w False = (tru, r)"
    by (cases "upsert_failover_records cfg w False")
  note c0 = parse_sns_event_calls [OF assms(1)]
  note ch = health_calls [OF assms(6)]
  note cu = upsert_calls [OF u]
  show ?thesis
  proof (cases sec_health)
    case None
    then show ?thesis
      using assms c0 ch by (simp add: lambda_handler_def Let_def calls_simps healthy_def)
  next
    case (Some h)
    show ?thesis
    proof (cases "h \<le> 0.5")
      case True
      with Some show ?thesis
        using assms c0 ch by (simp add: lambda_handler_def Let_def calls_simps healthy_def)
    next
      case False
      with Some show ?thesis
        using assms c0 ch cu u
        by (cases r) (simp_all add: lambda_handler_def Let_def calls_simps healthy_def)
    qed
  qed
qed

theorem alarm_publishes_iff_secondary_healthy_witness:
  "route53_calls (fst (lambda_handler example_config (example_world healthy_sample)
       (example_event ''east-alarm''))) =
     [(''Z1'', failover_batch example_config False)]
   \<and> route53_calls (fst (lambda_handler example_config (example_world threshold_sample)
       (example_event ''east-alarm''))) = []
   \<and> route53_calls (fst (lambda_handler example_config (example_world [])
       (example_event ''east-alarm''))) = []"
proof -
  let ?msg = "JObj [(''AlarmName'', JStr ''RegionDown-east-example.com''),
                    (''NewStateValue'', JStr ''ALARM'')]"
  have p: "parse_sns_event (example_world ds) (example_event ''east-alarm'') = ([], Inr ?msg)"
    for ds
    by (simp add: example_parse example_loads_def)
  have t: "truthy ?msg" by simp
  have a: "py_get ?msg ''AlarmName'' = Inr (JStr ''RegionDown-east-example.com'')" by simp
  have n: "py_get ?msg ''NewStateValue'' = Inr (JStr ''ALARM'')" by simp
  have v: "var_is_primary_alarm example_config (JStr ''RegionDown-east-example.com'') = Inr True"
    by (rule example_classified)
  have h1: "get_latest_region_health (example_world healthy_sample)
        (SECONDARY_REGION_LABEL example_config) =
      ([CloudWatchCall (region_health_request (example_world healthy_sample) ''west'')],
       Inr (Some 0.51))"
    by (simp add: get_latest_region_health_def get_latest_region_health_try_def Let_def
        sorted_by_Timestamp_def example_world_def healthy_sample_def example_config_def)
  have h2: "get_latest_region_health (example_world threshold_sample)
        (SECONDARY_REGION_LABEL example_config) =
      ([CloudWatchCall (region_health_request (example_world threshold_sample) ''west'')],
       Inr (Some 0.5))"
    by (simp add: get_latest_region_health_def get_latest_region_health_try_def Let_def
        sorted_by_Timestamp_def example_world_def threshold_sample_def example_config_def)
  have h3: "get_latest_region_health (example_world [])
        (SECONDARY_REGION_LABEL example_config) =
      ([CloudWatchCall (region_health_request (example_world []) ''west'')], Inr None)"
    by (simp add: get_latest_region_health_def get_latest_region_health_try_def Let_def
        example_world_def example_config_def)
  show ?thesis
    using alarm_publishes_iff_secondary_healthy [OF p t a n v h1]
      alarm_publishes_iff_secondary_healthy [OF p t a n v h2]
      alarm_publishes_iff_secondary_healthy [OF p t a n v h3]
    by (simp add: example_config_def healthy_def)
qed

text \<open>
  C3.  For a decoded message whose alarm name is classified as the primary alarm and whose
  new state is \<^verbatim>\<open>OK\<close>: the health of the primary region is queried, once; when the
  sample is absent or not strictly above 0.5 no call to Route53 is made and the handler
  returns; otherwise Route53 is called once with the batch that designates the primary
  region.
\<close>

theorem ok_reverts_iff_primary_healthy:
  assumes "parse_sns_event w event = (tr0, Inr msg)" and "truthy msg"
    and "py_get msg ''AlarmName'' = Inr alarm_name"
    and "py_get msg ''NewStateValue'' = Inr (JStr ''OK'')"
    and "var_is_primary_alarm cfg alarm_name = Inr True"
    and "get_latest_region_health w (PRIMARY_REGION_LABEL cfg) = (trh, Inr pri_health)"
  shows "route53_calls (fst (lambda_handler cfg w event)) =
           (if healthy pri_health
            then [(HOSTED_ZONE_ID cfg, failover_batch cfg True)] else [])
       \<and> cloudwatch_calls (fst (lambda_handler cfg w event)) =
           [region_health_request w (PRIMARY_REGION_LABEL cfg)]
       \<and> (healthy pri_health \<or> snd (lambda_handler cfg w event) = Inr ())"
proof -
  obtain tru r where u: "upsert_failover_records cfg w True = (tru, r)"
    by (cases "upsert_failover_records cfg w True")
  note c0 = parse_sns_event_calls [OF assms(1)]
  note ch = health_calls [OF assms(6)]
  note cu = upsert_calls [OF u]
  show ?thesis
  proof (cases pri_health)
    case None
    then show ?thesis
      using assms c0 ch by (simp add: lambda_handler_def Let_def calls_simps healthy_def)
  next
    case (Some h)
    show ?thesis
    proof (cases "h \<le> 0.5")
      case True
      with Some show ?thesis
        using assms c0 ch by (simp add: lambda_handler_def Let_def calls_simps healthy_def)
    next
      case False
      with Some show ?thesis
        using assms c0 ch cu u
        by (cases r) (simp_all add: lambda_handler_def Let_def calls_simps healthy_def)
    qed
  qed
qed

theorem ok_reverts_iff_primary_healthy_witness:
  "route53_calls (fst (lambda_handler example_config (example_world healthy_sample)
       (example_event ''east-ok''))) =
     [(''Z1'', failover_batch example_config True)]
   \<and> route53_calls (fst (lambda_handler example_config (example_world threshold_sample)
       (example_event ''east-ok''))) = []
   \<and> route53_calls (fst (lambda_handler example_config (example_world [])
       (example_event ''east-ok''))) = []"
proof -
  let ?msg = "JObj [(''AlarmName'', JStr ''RegionDown-east-example.com''),
                    (''NewStateValue'', JStr ''OK'')]"
  have p: "parse_sns_event (example_world ds) (example_event ''east-ok'') = ([], Inr ?msg)"
    for ds
    by (simp add: example_parse example_loads_def)
  have t: "truthy ?msg" by simp
  have a: "py_get ?msg ''AlarmName'' = Inr (JStr ''RegionDown-east-example.com'')" by simp
  have n: "py_get ?msg ''NewStateValue'' = Inr (JStr ''OK'')" by simp
  have v: "var_is_primary_alarm example_config (JStr ''RegionDown-east-example.com'') = Inr True"
    by (rule example_classified)
  have h1: "get_latest_region_health (example_world healthy_sample)
        (PRIMARY_REGION_LABEL example_config) =
      ([CloudWatchCall (region_health_request (example_world healthy_sample) ''east'')],
       Inr (Some 0.51))"
    by (simp add: get_latest_region_health_def get_latest_region_health_try_def Let_def
        sorted_by_Timestamp_def example_world_def healthy_sample_def example_config_def)
  have h2: "get_latest_region_health (example_world threshold_sample)
        (PRIMARY_REGION_LABEL example_config) =
      ([CloudWatchCall (region_health_request (example_world threshold_sample) ''east'')],
       Inr (Some 0.5))"
    by (simp add: get_latest_region_health_def get_latest_region_health_try_def Let_def
        sorted_by_Timestamp_def example_world_def threshold_sample_def example_config_def)
  have h3: "get_latest_region_health (example_world [])
        (PRIMARY_REGION_LABEL example_config) =
      ([CloudWatchCall (region_health_request (example_world []) ''east'')], Inr None)"
    by (simp add: get_latest_region_health_def get_latest_region_health_try_def Let_def
        example_world_def example_config_def)
  show ?thesis
    using ok_reverts_iff_primary_healthy [OF p t a n v h1]
      ok_reverts_iff_primary_healthy [OF p t a n v h2]
      ok_reverts_iff_primary_healthy [OF p t a n v h3]
    by (simp add: example_config_def healthy_def)
qed

text \<open>
  C4.  For a decoded message whose alarm name is missing, empty, or a string in which the
  primary region label does not occur: the handler calls neither CloudWatch nor Route53,
  and it returns when \<^verbatim>\<open>RECORD_NAME\<close> has a dot (without a dot the classifier raises
  before any call).  With a dot in \<^verbatim>\<open>RECORD_NAME\<close>, a string alarm name is classified
  as primary exactly when it is not empty and the label occurs in it as a contiguous
  block.
\<close>

theorem other_alarm_ignored:
  assumes "parse_sns_event w event = (tr0, Inr msg)" and "truthy msg"
    and "py_get msg ''AlarmName'' = Inr alarm_name"
    and "alarm_name = JNull \<or> alarm_name = JStr []
         \<or> (\<exists>s. alarm_name = JStr s \<and> \<not> sublist (PRIMARY_REGION_LABEL cfg) s)"
  shows "cloudwatch_calls (fst (lambda_handler cfg w event)) = []
       \<and> route53_calls (fst (lambda_handler cfg w event)) = []
       \<and> snd (lambda_handler cfg w event) =
           (if CHR ''.'' \<in> set (RECORD_NAME cfg) then Inr () else Inl IndexError)
       \<and> (CHR ''.'' \<in> set (RECORD_NAME cfg) \<longrightarrow>
            (\<forall>name. var_is_primary_alarm cfg (JStr name) =
               Inr (name \<noteq> [] \<and> sublist (PRIMARY_REGION_LABEL cfg) name)))"
proof -
  note c0 = parse_sns_event_calls [OF assms(1)]
  obtain new_state where n: "py_get msg ''NewStateValue'' = Inr new_state"
    using py_get_both [OF assms(3)] by blast
  show ?thesis
  proof (cases "CHR ''.'' \<in> set (RECORD_NAME cfg)")
    case True
    have "var_is_primary_alarm cfg alarm_name = Inr False"
      using assms(4) True
      by (auto simp: var_is_primary_alarm_JStr var_is_primary_alarm_JNull)
    then show ?thesis
      using assms(1,2,3) n c0 True
      by (simp add: lambda_handler_def Let_def calls_simps var_is_primary_alarm_JStr)
  next
    case False
    then have "var_is_primary_alarm cfg alarm_name = Inl IndexError"
      by (rule var_is_primary_alarm_no_dot)
    then show ?thesis
      using assms(1,2,3) n c0 False
      by (simp add: lambda_handler_def Let_def calls_simps)
  qed
qed

theorem other_alarm_ignored_witness:
  "lambda_handler example_config (example_world healthy_sample) (example_event ''west-alarm'') =
     ([Log INFO ''Event: %s'', Log INFO ''Alarm %s changed to %s'',
       Log INFO ''Alarm is not primary alarm; ignoring in this version''], Inr ())
   \<and> cloudwatch_calls (fst (lambda_handler example_config (example_world healthy_sample)
        (example_event ''west-alarm''))) = []
   \<and> route53_calls (fst (lambda_handler example_config (example_world healthy_sample)
        (example_event ''west-alarm''))) = []
   \<and> cloudwatch_calls (fst (lambda_handler example_config (example_world healthy_sample)
        (example_event ''no-name''))) = []
   \<and> route53_calls (fst (lambda_handler example_config (example_world healthy_sample)
        (example_event ''no-name''))) = []
   \<and> snd (lambda_handler example_config (example_world healthy_sample)
        (example_event ''no-name'')) = Inr ()"
proof -
  let ?w = "example_world healthy_sample"
  let ?m1 = "JObj [(''AlarmName'', JStr ''RegionDown-west-example.com''),
                   (''NewStateValue'', JStr ''ALARM'')]"
  let ?m2 = "JObj [(''NewStateValue'', JStr ''ALARM'')]"
  have p1: "parse_sns_event ?w (example_event ''west-alarm'') = ([], Inr ?m1)"
    by (simp add: example_parse example_loads_def)
  have p2: "parse_sns_event ?w (example_event ''no-name'') = ([], Inr ?m2)"
    by (simp add: example_parse example_loads_def)
  have t1: "truthy ?m1" and t2: "truthy ?m2" by simp_all
  have a1: "py_get ?m1 ''AlarmName'' = Inr (JStr ''RegionDown-west-example.com'')" by simp
  have a2: "py_get ?m2 ''AlarmName'' = Inr JNull" by simp
  have "\<not> str_contains ''RegionDown-west-example.com'' ''east''" by simp
  then have s1: "JStr ''RegionDown-west-example.com'' = JNull
      \<or> JStr ''RegionDown-west-example.com'' = JStr []
      \<or> (\<exists>s. JStr ''RegionDown-west-example.com'' = JStr s
            \<and> \<not> sublist (PRIMARY_REGION_LABEL example_config) s)"
    by (simp add: str_contains_sublist example_config_def)
  have s2: "JNull = JNull \<or> JNull = JStr []
      \<or> (\<exists>s. JNull = JStr s \<and> \<not> sublist (PRIMARY_REGION_LABEL example_config) s)"
    by simp
  have d: "CHR ''.'' \<in> set (RECORD_NAME example_config)" by (simp add: example_config_def)
  have full: "lambda_handler example_config ?w (example_event ''west-alarm'') =
     ([Log INFO ''Event: %s'', Log INFO ''Alarm %s changed to %s'',
       Log INFO ''Alarm is not primary alarm; ignoring in this version''], Inr ())"
    by (simp add: lambda_handler_def p1 example_classified)
  show ?thesis
    using other_alarm_ignored [OF p1 t1 a1 s1] other_alarm_ignored [OF p2 t2 a2 s2] d full
    by simp
qed

text \<open>
  C5.  The classifier returns on a string alarm name exactly when \<^verbatim>\<open>RECORD_NAME\<close>
  contains a dot.  Without a dot it raises \<^verbatim>\<open>IndexError\<close> for every alarm name, and for
  every decoded message the handler ends with that exception after the alarm has been
  logged, with no call to CloudWatch or Route53.
\<close>

theorem record_name_without_dot_raises:
  "((\<exists>b. var_is_primary_alarm cfg (JStr name) = Inr b) \<longleftrightarrow> CHR ''.'' \<in> set (RECORD_NAME cfg))
   \<and> (CHR ''.'' \<notin> set (RECORD_NAME cfg) \<longrightarrow>
        var_is_primary_alarm cfg alarm_name = Inl IndexError
        \<and> (parse_sns_event w event = (tr0, Inr msg) \<and> truthy msg
             \<and> py_get msg ''AlarmName'' = Inr a \<longrightarrow>
           lambda_handler cfg w event =
             (Log INFO ''Event: %s'' # tr0 @ [Log INFO ''Alarm %s changed to %s''],
              Inl IndexError)
           \<and> cloudwatch_calls (fst (lambda_handler cfg w event)) = []
           \<and> route53_calls (fst (lambda_handler cfg w event)) = []))"
proof -
  have iff: "(\<exists>b. var_is_primary_alarm cfg (JStr name) = Inr b)
      \<longleftrightarrow> CHR ''.'' \<in> set (RECORD_NAME cfg)"
    by (cases "CHR ''.'' \<in> set (RECORD_NAME cfg)")
      (simp_all add: var_is_primary_alarm_JStr var_is_primary_alarm_no_dot)
  have handler: "lambda_handler cfg w event =
        (Log INFO ''Event: %s'' # tr0 @ [Log INFO ''Alarm %s changed to %s''], Inl IndexError)
      \<and> cloudwatch_calls (fst (lambda_handler cfg w event)) = []
      \<and> route53_calls (fst (lambda_handler cfg w event)) = []"
    if nd: "CHR ''.'' \<notin> set (RECORD_NAME cfg)"
      and p: "parse_sns_event w event = (tr0, Inr msg)" and t: "truthy msg"
      and g: "py_get msg ''AlarmName'' = Inr a"
  proof -
    obtain new_state where n: "py_get msg ''NewStateValue'' = Inr new_state"
      using py_get_both [OF g] by blast
    have v: "var_is_primary_alarm cfg a = Inl IndexError"
      using nd by (rule var_is_primary_alarm_no_dot)
    have "lambda_handler cfg w event =
        (Log INFO ''Event: %s'' # tr0 @ [Log INFO ''Alarm %s changed to %s''], Inl IndexError)"
      using p t g n v by (simp add: lambda_handler_def Let_def)
    then show ?thesis
      using parse_sns_event_calls [OF p] by (simp add: calls_simps)
  qed
  show ?thesis
    using iff handler var_is_primary_alarm_no_dot [of cfg alarm_name] by blast
qed

theorem record_name_without_dot_raises_witness:
  "CHR ''.'' \<notin> set (RECORD_NAME dotless_config)
   \<and> var_is_primary_alarm dotless_config (JStr ''RegionDown-east-example.com'') = Inl IndexError
   \<and> lambda_handler dotless_config (example_world healthy_sample) (example_event ''east-alarm'') =
       ([Log INFO ''Event: %s'', Log INFO ''Alarm %s changed to %s''], Inl IndexError)
   \<and> (\<exists>b. var_is_primary_alarm example_config (JStr ''RegionDown-east-example.com'') = Inr b)"
proof -
  let ?w = "example_world healthy_sample"
  let ?msg = "JObj [(''AlarmName'', JStr ''RegionDown-east-example.com''),
                    (''NewStateValue'', JStr ''ALARM'')]"
  have nd: "CHR ''.'' \<notin> set (RECORD_NAME dotless_config)"
    by (simp add: dotless_config_def example_config_def)
  have d: "CHR ''.'' \<in> set (RECORD_NAME example_config)" by (simp add: example_config_def)
  have p: "parse_sns_event ?w (example_event ''east-alarm'') = ([], Inr ?msg)"
    by (simp add: example_parse example_loads_def)
  have t: "truthy ?msg" by simp
  have a: "py_get ?msg ''AlarmName'' = Inr (JStr ''RegionDown-east-example.com'')" by simp
  show ?thesis
    using record_name_without_dot_raises
        [of dotless_config _ "JStr ''RegionDown-east-example.com''" ?w
          "example_event ''east-alarm''" "[]" ?msg "JStr ''RegionDown-east-example.com''"]
      record_name_without_dot_raises [of example_config "''RegionDown-east-example.com''"]
      nd d p t a
    by simp
qed

text \<open>The envelopes that decode: every other one is a decode error.\<close>

lemma getitem_str_Inr_iff:
  "getitem_str x k = Inr v \<longleftrightarrow> (\<exists>kvs. x = JObj kvs \<and> map_of kvs k = Some v)"
  by (cases x) (auto split: option.splits)

lemma getitem_0_Inr_iff:
  "getitem_0 x = Inr v \<longleftrightarrow>
     (\<exists>xs. x = JArr (v # xs)) \<or> (\<exists>c s. x = JStr (c # s) \<and> v = JStr [c])"
  by (cases x) (auto split: list.splits)

lemma loads_Inr_iff:
  "loads w message = Inr msg \<longleftrightarrow> (\<exists>s. message = JStr s \<and> json_loads w s = Inr msg)"
  by (cases message) (simp_all add: loads_def)

lemma parse_sns_event_try_Inr_iff:
  "parse_sns_event_try w event = Inr msg \<longleftrightarrow>
     (\<exists>kvs rs kvs' kvs'' s.
        event = JObj kvs \<and> map_of kvs ''Records'' = Some (JArr (JObj kvs' # rs))
        \<and> map_of kvs' ''Sns'' = Some (JObj kvs'') \<and> map_of kvs'' ''Message'' = Some (JStr s)
        \<and> json_loads w s = Inr msg)"
proof
  assume "parse_sns_event_try w event = Inr msg"
  then obtain records record0 sns_record message where
    "getitem_str event ''Records'' = Inr records" "getitem_0 records = Inr record0"
    "getitem_str record0 ''Sns'' = Inr sns_record"
    "getitem_str sns_record ''Message'' = Inr message" "loads w message = Inr msg"
    by (auto simp: parse_sns_event_try_def split: sum.splits)
  then show "\<exists>kvs rs kvs' kvs'' s.
        event = JObj kvs \<and> map_of kvs ''Records'' = Some (JArr (JObj kvs' # rs))
        \<and> map_of kvs' ''Sns'' = Some (JObj kvs'') \<and> map_of kvs'' ''Message'' = Some (JStr s)
        \<and> json_loads w s = Inr msg"
    by (auto simp: getitem_str_Inr_iff getitem_0_Inr_iff loads_Inr_iff)
next
  assume "\<exists>kvs rs kvs' kvs'' s.
        event = JObj kvs \<and> map_of kvs ''Records'' = Some (JArr (JObj kvs' # rs))
        \<and> map_of kvs' ''Sns'' = Some (JObj kvs'') \<and> map_of kvs'' ''Message'' = Some (JStr s)
        \<and> json_loads w s = Inr msg"
  then show "parse_sns_event_try w event = Inr msg"
    by (auto simp: parse_sns_event_try_def loads_def)
qed

text \<open>
  C8.  When any step of the decoding raises (a missing field, an empty batch, a payload
  that is not JSON), \<^verbatim>\<open>parse_sns_event\<close> logs it and returns \<^verbatim>\<open>None\<close>, and the handler
  logs that there is no message and returns, with no call to CloudWatch or Route53.
\<close>

theorem decode_error_is_no_event:
  assumes "parse_sns_event_try w event = Inl e"
  shows "parse_sns_event w event = ([Log ERROR ''Failed to parse SNS event: %s''], Inr JNull)
       \<and> lambda_handler cfg w event =
           ([Log INFO ''Event: %s'', Log ERROR ''Failed to parse SNS event: %s'',
             Log ERROR ''No parsed message, aborting''], Inr ())
       \<and> cloudwatch_calls (fst (lambda_handler cfg w event)) = []
       \<and> route53_calls (fst (lambda_handler cfg w event)) = []"
proof -
  have p: "parse_sns_event w event = ([Log ERROR ''Failed to parse SNS event: %s''], Inr JNull)"
    using assms by (simp add: parse_sns_event_def)
  then have h: "lambda_handler cfg w event =
           ([Log INFO ''Event: %s'', Log ERROR ''Failed to parse SNS event: %s'',
             Log ERROR ''No parsed message, aborting''], Inr ())"
    by (simp add: lambda_handler_def)
  from p h show ?thesis by (simp add: calls_simps)
qed

theorem decode_error_is_no_event_witness:
  "parse_sns_event_try (example_world []) (JObj []) = Inl KeyError
   \<and> parse_sns_event (example_world []) (JObj []) =
       ([Log ERROR ''Failed to parse SNS event: %s''], Inr JNull)
   \<and> parse_sns_event_try (example_world []) (JObj [(''Records'', JArr [])]) = Inl IndexError
   \<and> snd (lambda_handler example_config (example_world []) (JObj [(''Records'', JArr [])])) = Inr ()
   \<and> parse_sns_event_try (example_world []) (example_event ''{not json'') = Inl JSONDecodeError
   \<and> lambda_handler example_config (example_world []) (example_event ''{not json'') =
       ([Log INFO ''Event: %s'', Log ERROR ''Failed to parse SNS event: %s'',
         Log ERROR ''No parsed message, aborting''], Inr ())"
proof -
  have e1: "parse_sns_event_try (example_world []) (JObj []) = Inl KeyError"
    by (simp add: parse_sns_event_try_def)
  have e2: "parse_sns_event_try (example_world []) (JObj [(''Records'', JArr [])]) = Inl IndexError"
    by (simp add: parse_sns_event_try_def)
  have e3: "parse_sns_event_try (example_world []) (example_event ''{not json'') = Inl JSONDecodeError"
    by (simp add: parse_sns_event_try_def example_event_def loads_def example_world_def
        example_loads_def)
  show ?thesis
    using decode_error_is_no_event [OF e1, of example_config]
      decode_error_is_no_event [OF e2, of example_config]
      decode_error_is_no_event [OF e3, of example_config] e1 e2 e3
    by simp
qed

end
